theory Spec2Isabelle
  imports Complex_Main "HOL-Library.Word"
begin

section \<open>Strings\<close>

text \<open>
  A JavaScript string is a sequence of UTF-16 code units. The literals of the sources
  are ASCII but for one typographic apostrophe (U+2019) in the success message of
  \<^verbatim>\<open>ContactSection.tsx\<close>, so a literal is written as the ASCII text, converted
  unit by unit, with the non-ASCII unit given by its number.
\<close>

type_synonym jsstring = "16 word list"

definition js :: "string \<Rightarrow> jsstring" where
  "js s = map of_char s"

text \<open>
  \<^verbatim>\<open>String.prototype.trim\<close> removes, at both ends, the code units that ECMAScript
  calls WhiteSpace or LineTerminator: TAB, LF, VT, FF, CR, SPACE, NBSP, U+1680,
  U+2000 to U+200A, U+2028, U+2029, U+202F, U+205F, U+3000 and U+FEFF.
\<close>

definition is_whitespace :: "16 word \<Rightarrow> bool" where
  "is_whitespace c \<longleftrightarrow>
     c \<in> {0x0009, 0x000A, 0x000B, 0x000C, 0x000D, 0x0020, 0x00A0, 0x1680,
          0x2000, 0x2001, 0x2002, 0x2003, 0x2004, 0x2005, 0x2006, 0x2007,
          0x2008, 0x2009, 0x200A,
          0x2028, 0x2029, 0x202F, 0x205F, 0x3000, 0xFEFF}"

definition trim :: "jsstring \<Rightarrow> jsstring" where
  "trim s = rev (dropWhile is_whitespace (rev (dropWhile is_whitespace s)))"

text \<open>
  JavaScript truthiness of a value of type \<^verbatim>\<open>string | undefined\<close>: \<^verbatim>\<open>!x\<close> holds
  for \<^verbatim>\<open>undefined\<close> and for the empty string.
\<close>

definition falsy :: "jsstring option \<Rightarrow> bool" where
  "falsy x \<longleftrightarrow> (case x of None \<Rightarrow> True | Some s \<Rightarrow> s = [])"


section \<open>The contact form (ContactSection.tsx)\<close>

text \<open>
  The component holds three pieces of React state: \<^verbatim>\<open>formData\<close>, \<^verbatim>\<open>status\<close> and
  \<^verbatim>\<open>feedbackMessage\<close>. The draft \<^verbatim>\<open>formData\<close> is a JavaScript object written through a
  computed key in \<^verbatim>\<open>handleChange\<close>, so it is a map from property names to strings.
  The status type is \<^verbatim>\<open>"idle" | "loading" | "success" | "error"\<close>.
\<close>

datatype submission_status = Idle | Loading | Success | Error

type_synonym form_data = "jsstring \<rightharpoonup> jsstring"

record contact_state =
  formData :: form_data
  status :: submission_status
  feedbackMessage :: "jsstring option"

definition empty_form :: form_data where
  "empty_form = [js ''name'' \<mapsto> [], js ''email'' \<mapsto> [], js ''message'' \<mapsto> []]"

definition initial_contact :: contact_state where
  "initial_contact = \<lparr>formData = empty_form, status = Idle, feedbackMessage = None\<rparr>"

text \<open>
  \<^verbatim>\<open>handleChange\<close>: \<^verbatim>\<open>setFormData({...formData, [e.target.name]: e.target.value})\<close>.
\<close>

definition handleChange :: "jsstring \<Rightarrow> jsstring \<Rightarrow> contact_state \<Rightarrow> contact_state" where
  "handleChange target_name target_value st =
     st\<lparr>formData := (formData st)(target_name \<mapsto> target_value)\<rparr>"

text \<open>
  What \<^verbatim>\<open>await fetch(...)\<close> gives back. The promise rejects with a thrown value, which
  the \<^verbatim>\<open>catch\<close> block tests with \<^verbatim>\<open>instanceof Error\<close>, or resolves to a response.
  A network failure rejects with a \<^verbatim>\<open>TypeError\<close>, an \<^verbatim>\<open>Error\<close> instance whose message
  is the browser's. Of a response the handler reads \<^verbatim>\<open>ok\<close> (the status is in 200..299)
  and, when not ok, the body through \<^verbatim>\<open>response.json().catch(() => null)\<close> at the type
  \<^verbatim>\<open>{ error?: string } | null\<close>: \<open>None\<close> is the \<^verbatim>\<open>null\<close> of a body that does not
  parse.
\<close>

datatype thrown = ErrorInstance jsstring | OtherValue

datatype error_payload = ErrorPayload (error: "jsstring option")

record fetch_response =
  resp_status :: nat
  resp_json :: "error_payload option"

datatype fetch_outcome = Rejected thrown | Resolved fetch_response

definition response_ok :: "fetch_response \<Rightarrow> bool" where
  "response_ok r \<longleftrightarrow> 200 \<le> resp_status r \<and> resp_status r \<le> 299"

definition success_message :: jsstring where
  "success_message = js ''Thanks for reaching out! I'' @ [0x2019] @ js ''ll respond shortly.''"

definition failed_to_send :: jsstring where
  "failed_to_send = js ''Failed to send your message.''"

definition something_went_wrong :: jsstring where
  "something_went_wrong = js ''Something went wrong. Please try again.''"

text \<open>\<^verbatim>\<open>data?.error ?? "Failed to send your message."\<close>\<close>

definition failure_reason :: "fetch_response \<Rightarrow> jsstring" where
  "failure_reason r =
     (case resp_json r of
        None \<Rightarrow> failed_to_send
      | Some data \<Rightarrow> (case error data of None \<Rightarrow> failed_to_send | Some e \<Rightarrow> e))"

text \<open>
  The \<^verbatim>\<open>try\<close> block after the request was made: \<open>Some t\<close> when it throws \<open>t\<close>,
  \<open>None\<close> when it runs to its end.
\<close>

definition try_block :: "fetch_outcome \<Rightarrow> thrown option" where
  "try_block outcome =
     (case outcome of
        Rejected t \<Rightarrow> Some t
      | Resolved response \<Rightarrow>
          if \<not> response_ok response then Some (ErrorInstance (failure_reason response))
          else None)"

text \<open>
  \<^verbatim>\<open>handleSubmit\<close> runs in two parts, with the \<^verbatim>\<open>await\<close> between them: up to the call
  of \<^verbatim>\<open>fetch\<close>, whose body is \<^verbatim>\<open>JSON.stringify(formData)\<close>, and from the settled
  promise to the end.
\<close>

definition handleSubmit_begin :: "contact_state \<Rightarrow> contact_state" where
  "handleSubmit_begin st = st\<lparr>status := Loading, feedbackMessage := None\<rparr>"

definition request_body :: "contact_state \<Rightarrow> form_data" where
  "request_body st = formData st"

definition handleSubmit_settle :: "fetch_outcome \<Rightarrow> contact_state \<Rightarrow> contact_state" where
  "handleSubmit_settle outcome st =
     (case try_block outcome of
        None \<Rightarrow>
          st\<lparr>status := Success,
             feedbackMessage := Some success_message,
             formData := empty_form\<rparr>
      | Some e \<Rightarrow>
          st\<lparr>status := Error,
             feedbackMessage :=
               Some (case e of ErrorInstance m \<Rightarrow> m | OtherValue \<Rightarrow> something_went_wrong)\<rparr>)"

definition handleSubmit :: "fetch_outcome \<Rightarrow> contact_state \<Rightarrow> contact_state" where
  "handleSubmit outcome st = handleSubmit_settle outcome (handleSubmit_begin st)"

text \<open>
  The form as the page runs it. Activating the submit control reaches \<^verbatim>\<open>handleSubmit\<close>
  only through the browser, which sends the form its submit event when three checks
  pass. The submit button carries \<^verbatim>\<open>disabled={status === "loading"}\<close>, and a disabled
  button submits nothing. The three inputs carry \<^verbatim>\<open>required\<close> and the form has no
  \<^verbatim>\<open>noValidate\<close>, so a form with an empty field is not submitted; the inputs are
  controlled, their values are the members of \<^verbatim>\<open>formData\<close>. The email input has
  \<^verbatim>\<open>type="email"\<close>, whose check of the address is the browser's own and is the
  parameter \<open>email_ok\<close>. \<^verbatim>\<open>handleSubmit\<close> itself tests nothing.

  The events are the user's (activating the submit control, editing a field) and the
  settling of the oldest outstanding request. \<open>fetch_log\<close> is every request body
  passed to \<^verbatim>\<open>fetch\<close> so far, \<open>outstanding\<close> the number of requests not yet settled.
\<close>

record contact_form =
  ui :: contact_state
  fetch_log :: "form_data list"
  outstanding :: nat

datatype form_event =
    SubmitClick
  | Change jsstring jsstring
  | Settle fetch_outcome

fun is_settle :: "form_event \<Rightarrow> bool" where
  "is_settle (Settle outcome) = True"
| "is_settle _ = False"

definition submit_disabled :: "contact_state \<Rightarrow> bool" where
  "submit_disabled st \<longleftrightarrow> status st = Loading"

definition field_filled :: "form_data \<Rightarrow> jsstring \<Rightarrow> bool" where
  "field_filled draft k \<longleftrightarrow> (case draft k of None \<Rightarrow> False | Some v \<Rightarrow> v \<noteq> [])"

definition form_valid :: "(jsstring \<Rightarrow> bool) \<Rightarrow> form_data \<Rightarrow> bool" where
  "form_valid email_ok draft \<longleftrightarrow>
     field_filled draft (js ''name'')
     \<and> field_filled draft (js ''email'')
     \<and> (case draft (js ''email'') of None \<Rightarrow> False | Some v \<Rightarrow> email_ok v)
     \<and> field_filled draft (js ''message'')"

definition initial_form :: contact_form where
  "initial_form = \<lparr>ui = initial_contact, fetch_log = [], outstanding = 0\<rparr>"

fun form_step :: "(jsstring \<Rightarrow> bool) \<Rightarrow> contact_form \<Rightarrow> form_event \<Rightarrow> contact_form" where
  "form_step email_ok f SubmitClick =
     (if submit_disabled (ui f) \<or> \<not> form_valid email_ok (formData (ui f)) then f
      else f\<lparr>ui := handleSubmit_begin (ui f),
             fetch_log := fetch_log f @ [request_body (ui f)],
             outstanding := Suc (outstanding f)\<rparr>)"
| "form_step email_ok f (Change target_name target_value) =
     f\<lparr>ui := handleChange target_name target_value (ui f)\<rparr>"
| "form_step email_ok f (Settle outcome) =
     (if outstanding f = 0 then f
      else f\<lparr>ui := handleSubmit_settle outcome (ui f),
             outstanding := outstanding f - 1\<rparr>)"

definition form_run ::
  "(jsstring \<Rightarrow> bool) \<Rightarrow> contact_form \<Rightarrow> form_event list \<Rightarrow> contact_form" where
  "form_run email_ok = foldl (form_step email_ok)"


section \<open>The active section and the sidebar (the page component, LeftNav)\<close>

text \<open>
  The page component \<^verbatim>\<open>App\<close> owns \<^verbatim>\<open>activeSection\<close>, a \<^verbatim>\<open>useState("home")\<close>, and
  hands its setter to the sidebar and to the four sections; \<^verbatim>\<open>LeftNav\<close> owns the
  drawer flag \<^verbatim>\<open>isOpen\<close>, a \<^verbatim>\<open>useState(false)\<close>. \<open>scrolled\<close> records the elements on
  which \<^verbatim>\<open>scrollIntoView\<close> was called, in order. The type \<open>'e\<close> of elements is left
  open: it holds whatever the document knows of an element, its visible ratio
  included, and no function below reads it.
\<close>

record 'e page =
  activeSection :: jsstring
  isOpen :: bool
  scrolled :: "'e list"

definition initial_page :: "'e page" where
  "initial_page = \<lparr>activeSection = js ''home'', isOpen = False, scrolled = []\<rparr>"

definition setActiveSection :: "jsstring \<Rightarrow> 'e page \<Rightarrow> 'e page" where
  "setActiveSection section_id p = p\<lparr>activeSection := section_id\<rparr>"

definition setIsOpen :: "bool \<Rightarrow> 'e page \<Rightarrow> 'e page" where
  "setIsOpen b p = p\<lparr>isOpen := b\<rparr>"

text \<open>
  The callback every section gives its \<^verbatim>\<open>IntersectionObserver\<close>
  (\<^verbatim>\<open>HeroSection\<close> with threshold 0.5, the other three with 0.3):
  \<^verbatim>\<open>(entries) => { if (entries[0].isIntersecting) setActiveSection(id) }\<close>.
  An entry is modelled by its \<^verbatim>\<open>isIntersecting\<close> flag. The browser calls back with at
  least one entry; on an empty list \<^verbatim>\<open>entries[0].isIntersecting\<close> would throw before
  any state is written, which leaves the page as it was.
\<close>

definition observer_callback :: "jsstring \<Rightarrow> bool list \<Rightarrow> 'e page \<Rightarrow> 'e page" where
  "observer_callback section_id entries p =
     (case entries of
        [] \<Rightarrow> p
      | isIntersecting # _ \<Rightarrow> if isIntersecting then setActiveSection section_id p else p)"

definition report_all :: "'e page \<Rightarrow> jsstring list \<Rightarrow> 'e page" where
  "report_all = foldl (\<lambda>p section_id. setActiveSection section_id p)"

definition observe_all :: "'e page \<Rightarrow> (jsstring \<times> bool list) list \<Rightarrow> 'e page" where
  "observe_all = foldl (\<lambda>p (section_id, entries). observer_callback section_id entries p)"

text \<open>
  \<^verbatim>\<open>scrollToSection\<close> of \<^verbatim>\<open>LeftNav\<close>. Its three calls are kept as a list, in the order
  the source makes them, and then performed on the page in that order.
  \<^verbatim>\<open>document.getElementById\<close> is a parameter: \<open>None\<close> is its \<^verbatim>\<open>null\<close>.
\<close>

datatype 'e call =
    ScrollIntoView 'e
  | SetActiveSection jsstring
  | SetIsOpen bool

definition scrollToSection_calls :: "(jsstring \<Rightarrow> 'e option) \<Rightarrow> jsstring \<Rightarrow> 'e call list" where
  "scrollToSection_calls getElementById section_id =
     (case getElementById section_id of
        None \<Rightarrow> []
      | Some element \<Rightarrow>
          [ScrollIntoView element, SetActiveSection section_id, SetIsOpen False])"

fun perform :: "'e page \<Rightarrow> 'e call \<Rightarrow> 'e page" where
  "perform p (ScrollIntoView element) = p\<lparr>scrolled := scrolled p @ [element]\<rparr>"
| "perform p (SetActiveSection section_id) = setActiveSection section_id p"
| "perform p (SetIsOpen b) = setIsOpen b p"

definition scrollToSection :: "(jsstring \<Rightarrow> 'e option) \<Rightarrow> jsstring \<Rightarrow> 'e page \<Rightarrow> 'e page" where
  "scrollToSection getElementById section_id p =
     foldl perform p (scrollToSection_calls getElementById section_id)"


section \<open>The relay endpoint (app/api/contact/route.ts)\<close>

text \<open>
  The value \<^verbatim>\<open>request.json()\<close> resolves to. The source casts it to
  \<^verbatim>\<open>{ name?: string; email?: string; message?: string }\<close> without a check, so the
  model keeps every JSON value. An object is the list of its own properties.
\<close>

datatype json =
    JNull
  | JBool bool
  | JNumber real
  | JString jsstring
  | JArray "json list"
  | JObject "(jsstring \<times> json) list"

datatype js_exception = SyntaxError | TypeError | SendFailure

text \<open>
  \<^verbatim>\<open>payload.name\<close>, \<^verbatim>\<open>payload.email\<close>, \<^verbatim>\<open>payload.message\<close>: reading a property of
  \<^verbatim>\<open>null\<close> throws; an object gives its own property or \<^verbatim>\<open>undefined\<close> (\<open>None\<close>);
  a boolean, number, string or array has no property of these three names.
\<close>

fun get_property :: "json \<Rightarrow> jsstring \<Rightarrow> js_exception + json option" where
  "get_property JNull k = Inl TypeError"
| "get_property (JObject properties) k = Inr (map_of properties k)"
| "get_property _ k = Inr None"

text \<open>
  \<^verbatim>\<open>x?.trim()\<close>: \<^verbatim>\<open>undefined\<close> for \<^verbatim>\<open>undefined\<close> and \<^verbatim>\<open>null\<close>, the trimmed string for
  a string, and a \<^verbatim>\<open>TypeError\<close> for any other value, which has no method \<^verbatim>\<open>trim\<close>.
\<close>

fun optional_trim :: "json option \<Rightarrow> js_exception + jsstring option" where
  "optional_trim None = Inr None"
| "optional_trim (Some JNull) = Inr None"
| "optional_trim (Some (JString s)) = Inr (Some (trim s))"
| "optional_trim (Some _) = Inl TypeError"

definition trimmed_field :: "json \<Rightarrow> jsstring \<Rightarrow> js_exception + jsstring option" where
  "trimmed_field payload k =
     (case get_property payload k of
        Inl e \<Rightarrow> Inl e
      | Inr v \<Rightarrow> optional_trim v)"

text \<open>
  The environment: \<^verbatim>\<open>FROM_EMAIL = process.env.RESEND_FROM_EMAIL\<close> and
  \<^verbatim>\<open>TO_EMAIL = process.env.CONTACT_TO_EMAIL ?? FROM_EMAIL\<close>.
\<close>

record env =
  RESEND_FROM_EMAIL :: "jsstring option"
  CONTACT_TO_EMAIL :: "jsstring option"

definition FROM_EMAIL :: "env \<Rightarrow> jsstring option" where
  "FROM_EMAIL e = RESEND_FROM_EMAIL e"

definition TO_EMAIL :: "env \<Rightarrow> jsstring option" where
  "TO_EMAIL e = (case CONTACT_TO_EMAIL e of None \<Rightarrow> FROM_EMAIL e | Some t \<Rightarrow> Some t)"

record email =
  mail_from :: jsstring
  mail_to :: jsstring
  replyTo :: jsstring
  subject :: jsstring
  text_body :: jsstring

datatype response_body = ErrorBody jsstring | OkBody

record http_response =
  http_status :: nat
  http_body :: response_body

definition settings_incomplete :: http_response where
  "settings_incomplete =
     \<lparr>http_status = 500,
      http_body = ErrorBody (js ''Email settings are incomplete on the server.'')\<rparr>"

definition bad_request :: http_response where
  "bad_request =
     \<lparr>http_status = 400,
      http_body = ErrorBody (js ''Please provide name, email, and message.'')\<rparr>"

definition unable_to_send :: http_response where
  "unable_to_send =
     \<lparr>http_status = 500,
      http_body = ErrorBody (js ''Unable to send message at this time.'')\<rparr>"

definition ok_response :: http_response where
  "ok_response = \<lparr>http_status = 200, http_body = OkBody\<rparr>"

definition compose_email :: "jsstring \<Rightarrow> jsstring \<Rightarrow> jsstring \<Rightarrow> jsstring \<Rightarrow> jsstring \<Rightarrow> email" where
  "compose_email sender recipient name email_address message =
     \<lparr>mail_from = sender,
      mail_to = recipient,
      replyTo = email_address,
      subject = js ''New portfolio inquiry from '' @ name,
      text_body = js ''Name: '' @ name @ [0x000A] @ js ''Email: '' @ email_address
                  @ [0x000A, 0x000A] @ message\<rparr>"

text \<open>
  The \<^verbatim>\<open>try\<close> block of \<^verbatim>\<open>POST\<close>. \<open>request_json\<close> is what \<^verbatim>\<open>request.json()\<close> gives:
  \<open>None\<close> when the body is not JSON and the promise rejects. \<open>send\<close> stands for
  \<^verbatim>\<open>resend.emails.send\<close>: \<open>True\<close> when its promise resolves, \<open>False\<close> when it rejects.
  The result is the response, or the exception the \<^verbatim>\<open>catch\<close> block receives, with the
  list of emails handed to \<^verbatim>\<open>resend.emails.send\<close>. Past the test of the three fields
  each of them is a string that is not empty, and \<open>the\<close> takes it out of its option;
  likewise for the two addresses in \<open>POST\<close>, past the test of the configuration.
\<close>

definition POST_try ::
  "jsstring \<Rightarrow> jsstring \<Rightarrow> (email \<Rightarrow> bool) \<Rightarrow> json option
     \<Rightarrow> (js_exception + http_response) \<times> email list" where
  "POST_try sender recipient send request_json =
     (case request_json of
        None \<Rightarrow> (Inl SyntaxError, [])
      | Some payload \<Rightarrow>
          (case trimmed_field payload (js ''name'') of
             Inl e \<Rightarrow> (Inl e, [])
           | Inr name \<Rightarrow>
          (case trimmed_field payload (js ''email'') of
             Inl e \<Rightarrow> (Inl e, [])
           | Inr email_address \<Rightarrow>
          (case trimmed_field payload (js ''message'') of
             Inl e \<Rightarrow> (Inl e, [])
           | Inr message \<Rightarrow>
               if falsy name \<or> falsy email_address \<or> falsy message
               then (Inr bad_request, [])
               else
                 let mail = compose_email sender recipient
                              (the name) (the email_address) (the message)
                 in if send mail then (Inr ok_response, [mail])
                    else (Inl SendFailure, [mail])))))"

definition POST :: "env \<Rightarrow> (email \<Rightarrow> bool) \<Rightarrow> json option \<Rightarrow> http_response \<times> email list" where
  "POST e send request_json =
     (if falsy (FROM_EMAIL e) \<or> falsy (TO_EMAIL e) then (settings_incomplete, [])
      else
        (case POST_try (the (FROM_EMAIL e)) (the (TO_EMAIL e)) send request_json of
           (Inl exception, sent) \<Rightarrow> (unable_to_send, sent)
         | (Inr response, sent) \<Rightarrow> (response, sent)))"


section \<open>Example inputs\<close>

text \<open>
  The draft of the specification's example scenario, the form holding it before any
  submission, and the responses and rejections used as concrete inputs below.
\<close>

definition ada_draft :: form_data where
  "ada_draft = [js ''name'' \<mapsto> js ''Ada'', js ''email'' \<mapsto> js ''ada@example.com'',
                js ''message'' \<mapsto> js ''Hello'']"

definition ada_state :: contact_state where
  "ada_state = initial_contact\<lparr>formData := ada_draft\<rparr>"

definition ok_true_200 :: fetch_response where
  "ok_true_200 = \<lparr>resp_status = 200, resp_json = Some (ErrorPayload None)\<rparr>"

definition validation_reason :: jsstring where
  "validation_reason = js ''Please provide name, email, and message.''"

definition rejected_400 :: fetch_response where
  "rejected_400 = \<lparr>resp_status = 400, resp_json = Some (ErrorPayload (Some validation_reason))\<rparr>"

text \<open>
  The messages of the \<^verbatim>\<open>TypeError\<close> with which \<^verbatim>\<open>fetch\<close> rejects on a network failure
  in two current browsers.
\<close>

definition failed_to_fetch :: thrown where
  "failed_to_fetch = ErrorInstance (js ''Failed to fetch'')"

definition load_failed :: thrown where
  "load_failed = ErrorInstance (js ''Load failed'')"

text \<open>
  A document for the sidebar: elements carry their id and the percentage of their box
  that is visible. The section \<^verbatim>\<open>contact\<close> is present and wholly out of view, the
  section \<^verbatim>\<open>skills\<close> is not in the document. \<open>drawer_open\<close> is the page after the
  drawer was opened.
\<close>

datatype element = Element jsstring nat

definition demo_document :: "jsstring \<Rightarrow> element option" where
  "demo_document = [js ''home'' \<mapsto> Element (js ''home'') 100,
                    js ''contact'' \<mapsto> Element (js ''contact'') 0]"

definition drawer_open :: "element page" where
  "drawer_open = initial_page\<lparr>isOpen := True\<rparr>"

text \<open>
  Two environments of the endpoint, one with the sender address set and one with
  nothing set; a mail service whose promise always resolves; a request body whose
  message is blank (a space, a tab and a line feed); and one whose name is a number.
\<close>

definition site_env :: env where
  "site_env = \<lparr>RESEND_FROM_EMAIL = Some (js ''site@example.com''), CONTACT_TO_EMAIL = None\<rparr>"

definition bare_env :: env where
  "bare_env = \<lparr>RESEND_FROM_EMAIL = None, CONTACT_TO_EMAIL = None\<rparr>"

definition always_resolves :: "email \<Rightarrow> bool" where
  "always_resolves mail = True"

definition blank_message :: "(jsstring \<times> json) list" where
  "blank_message = [(js ''name'', JString (js ''Ada'')),
                    (js ''email'', JString (js ''ada@example.com'')),
                    (js ''message'', JString [0x0020, 0x0009, 0x000A])]"

definition numeric_name :: "(jsstring \<times> json) list" where
  "numeric_name = [(js ''name'', JNumber 5)]"

text \<open>
  The user types Ada's draft and activates the submit control, once in \<open>fill_and_click\<close>
  and twice in a row in \<open>double_click\<close>; in \<open>incomplete_click\<close> the control is
  activated with only the name typed. \<open>contains_at\<close> is the check of the email input
  taken for these examples: the address has an at sign. Every browser accepts the
  address of Ada's draft.
\<close>

definition fill_and_click :: "form_event list" where
  "fill_and_click = [Change (js ''name'') (js ''Ada''),
                     Change (js ''email'') (js ''ada@example.com''),
                     Change (js ''message'') (js ''Hello''),
                     SubmitClick]"

definition double_click :: "form_event list" where
  "double_click = fill_and_click @ [SubmitClick]"

definition incomplete_click :: "form_event list" where
  "incomplete_click = [Change (js ''name'') (js ''Ada''), SubmitClick]"

definition contains_at :: "jsstring \<Rightarrow> bool" where
  "contains_at v \<longleftrightarrow> 0x0040 \<in> set v"


section \<open>Predicates of the statements\<close>

text \<open>
  A member of the request body as the endpoint's declared payload type has it, absent
  or a string; and a member that is absent or blank after trimming.
\<close>

fun string_or_absent :: "json option \<Rightarrow> bool" where
  "string_or_absent None = True"
| "string_or_absent (Some (JString s)) = True"
| "string_or_absent (Some _) = False"

fun absent_or_blank :: "json option \<Rightarrow> bool" where
  "absent_or_blank None = True"
| "absent_or_blank (Some (JString s)) = (trim s = [])"
| "absent_or_blank (Some _) = False"

text \<open>
  The number of outstanding requests agrees with the status: one while the status is
  loading, none otherwise.
\<close>

definition in_step :: "contact_form \<Rightarrow> bool" where
  "in_step f \<longleftrightarrow> outstanding f = (if status (ui f) = Loading then 1 else 0)"


section \<open>The submission flow\<close>

lemma handleSubmit_ok:
  "response_ok r \<Longrightarrow>
   handleSubmit (Resolved r) st =
     st\<lparr>status := Success, feedbackMessage := Some success_message, formData := empty_form\<rparr>"
  by (simp add: handleSubmit_def handleSubmit_settle_def handleSubmit_begin_def try_block_def)

lemma handleSubmit_thrown:
  "try_block outcome = Some t \<Longrightarrow>
   handleSubmit outcome st =
     st\<lparr>status := Error,
        feedbackMessage := Some (case t of ErrorInstance m \<Rightarrow> m | OtherValue \<Rightarrow> something_went_wrong)\<rparr>"
  by (simp add: handleSubmit_def handleSubmit_settle_def handleSubmit_begin_def)

text \<open>
  Claim C1, as the code has it. A submission from the idle state that the endpoint
  answers with status 200 takes the status through idle, loading (the specification's
  sending), success (its succeeded); the feedback message is
  \<^verbatim>\<open>Thanks for reaching out! I\<close>, the typographic apostrophe U+2019, \<^verbatim>\<open>ll respond shortly.\<close>;
  and the draft is reset to empty \<^verbatim>\<open>name\<close>, \<^verbatim>\<open>email\<close> and \<^verbatim>\<open>message\<close>. This holds
  for every draft, populated or not, and whatever the body of the response is: the
  handler does not read the body of a response that is ok.
\<close>

theorem submit_success:
  assumes "status st = Idle" and "resp_status r = 200"
  shows "map status [st, handleSubmit_begin st, handleSubmit (Resolved r) st]
           = [Idle, Loading, Success]
       \<and> feedbackMessage (handleSubmit (Resolved r) st)
           = Some (js ''Thanks for reaching out! I'' @ [0x2019] @ js ''ll respond shortly.'')
       \<and> formData (handleSubmit (Resolved r) st)
           = [js ''name'' \<mapsto> [], js ''email'' \<mapsto> [], js ''message'' \<mapsto> []]"
proof -
  have "response_ok r"
    using assms(2) by (simp add: response_ok_def)
  then show ?thesis
    using assms(1)
    by (simp add: handleSubmit_ok handleSubmit_begin_def success_message_def empty_form_def)
qed

text \<open>The example scenario of the specification: Ada's draft, status 200, body \<^verbatim>\<open>{ok:true}\<close>.\<close>

theorem submit_success_witness:
  "status ada_state = Idle \<and> resp_status ok_true_200 = 200
   \<and> map status [ada_state, handleSubmit_begin ada_state, handleSubmit (Resolved ok_true_200) ada_state]
           = [Idle, Loading, Success]
   \<and> feedbackMessage (handleSubmit (Resolved ok_true_200) ada_state)
           = Some (js ''Thanks for reaching out! I'' @ [0x2019] @ js ''ll respond shortly.'')
   \<and> formData (handleSubmit (Resolved ok_true_200) ada_state)
           = [js ''name'' \<mapsto> [], js ''email'' \<mapsto> [], js ''message'' \<mapsto> []]"
proof -
  have a: "status ada_state = Idle"
    by (simp add: ada_state_def initial_contact_def)
  have b: "resp_status ok_true_200 = 200"
    by (simp add: ok_true_200_def)
  show ?thesis
    using a b submit_success [OF a b] by simp
qed

text \<open>
  Claim C1 as the specification words it gives the feedback message with the ASCII
  apostrophe U+0027. In the example scenario the flow succeeds and the message is not
  that string.
\<close>

theorem ascii_apostrophe_counterexample:
  "status (handleSubmit (Resolved ok_true_200) ada_state) = Success
   \<and> feedbackMessage (handleSubmit (Resolved ok_true_200) ada_state)
       \<noteq> Some (js ''Thanks for reaching out! I'll respond shortly.'')"
  by (simp add: handleSubmit_def handleSubmit_settle_def handleSubmit_begin_def try_block_def
      response_ok_def ok_true_200_def success_message_def js_def)

text \<open>
  Claim C4. When the endpoint answers a submission with status 400 and the body
  \<^verbatim>\<open>{error:"Please provide name, email, and message."}\<close>, the flow ends with status
  error (the specification's failed), the feedback message is that string, and
  nothing else of the state has changed: the draft keeps the values it had.
\<close>

theorem submit_validation_error:
  "handleSubmit
     (Resolved \<lparr>resp_status = 400,
                resp_json = Some (ErrorPayload (Some (js ''Please provide name, email, and message.'')))\<rparr>)
     st
   = st\<lparr>status := Error,
        feedbackMessage := Some (js ''Please provide name, email, and message.'')\<rparr>"
proof -
  let ?r = "\<lparr>resp_status = 400,
             resp_json = Some (ErrorPayload (Some (js ''Please provide name, email, and message.'')))\<rparr>"
  have "try_block (Resolved ?r)
          = Some (ErrorInstance (js ''Please provide name, email, and message.''))"
    by (simp add: try_block_def response_ok_def failure_reason_def)
  then show ?thesis
    by (simp add: handleSubmit_thrown)
qed

text \<open>Ada's draft, refused with status 400: the three fields are as they were.\<close>

theorem submit_validation_error_witness:
  "status (handleSubmit (Resolved rejected_400) ada_state) = Error
   \<and> feedbackMessage (handleSubmit (Resolved rejected_400) ada_state)
       = Some (js ''Please provide name, email, and message.'')
   \<and> formData (handleSubmit (Resolved rejected_400) ada_state) = ada_draft"
  using submit_validation_error [of ada_state]
  by (simp add: rejected_400_def validation_reason_def ada_state_def)

text \<open>
  Claim C5 as the specification words it: an unreachable endpoint ends in a generic
  fallback message with no transport detail. The request of Ada's draft rejected with
  the \<^verbatim>\<open>TypeError\<close> of a network failure ends with status error and shows that error's
  own message, which is neither of the two fallback strings of the handler and
  differs from one browser's error to another's.
\<close>

theorem network_error_counterexample:
  "status (handleSubmit (Rejected failed_to_fetch) ada_state) = Error
   \<and> feedbackMessage (handleSubmit (Rejected failed_to_fetch) ada_state)
       = Some (js ''Failed to fetch'')
   \<and> feedbackMessage (handleSubmit (Rejected failed_to_fetch) ada_state)
       \<noteq> Some (js ''Something went wrong. Please try again.'')
   \<and> feedbackMessage (handleSubmit (Rejected failed_to_fetch) ada_state)
       \<noteq> Some (js ''Failed to send your message.'')
   \<and> feedbackMessage (handleSubmit (Rejected failed_to_fetch) ada_state)
       \<noteq> feedbackMessage (handleSubmit (Rejected load_failed) ada_state)"
  by (simp add: handleSubmit_def handleSubmit_settle_def handleSubmit_begin_def try_block_def
      failed_to_fetch_def load_failed_def js_def)

text \<open>
  Claim C5, as the code has it. A submission whose request is rejected ends with status
  error and an unmodified draft. The feedback message is the message of the thrown
  error when an \<^verbatim>\<open>Error\<close> instance was thrown, as on a network failure; it is the
  fallback \<^verbatim>\<open>Something went wrong. Please try again.\<close> only when the thrown value is no
  \<^verbatim>\<open>Error\<close> instance.
\<close>

theorem submit_request_rejected:
  "handleSubmit (Rejected (ErrorInstance m)) st
     = st\<lparr>status := Error, feedbackMessage := Some m\<rparr>
   \<and> handleSubmit (Rejected OtherValue) st
     = st\<lparr>status := Error,
          feedbackMessage := Some (js ''Something went wrong. Please try again.'')\<rparr>
   \<and> formData (handleSubmit (Rejected t) st) = formData st
   \<and> status (handleSubmit (Rejected t) st) = Error"
  by (simp add: handleSubmit_thrown try_block_def something_went_wrong_def)

text \<open>Ada's draft and a network failure.\<close>

theorem submit_request_rejected_witness:
  "handleSubmit (Rejected failed_to_fetch) ada_state
     = ada_state\<lparr>status := Error, feedbackMessage := Some (js ''Failed to fetch'')\<rparr>
   \<and> formData (handleSubmit (Rejected OtherValue) ada_state) = ada_draft"
  using submit_request_rejected [of "js ''Failed to fetch''" ada_state OtherValue]
  by (simp add: failed_to_fetch_def ada_state_def)

text \<open>
  Claim C10. A change event for the field named \<open>k\<close> with value \<open>v\<close> sets that field of
  the draft to \<open>v\<close> and leaves every other field of the draft, the status and the
  feedback message as they were. This holds for every name \<open>k\<close>, so for \<^verbatim>\<open>name\<close>,
  \<^verbatim>\<open>email\<close> and \<^verbatim>\<open>message\<close>.
\<close>

theorem change_sets_one_field:
  "formData (handleChange k v st) k = Some v
   \<and> (\<forall>k'. k' \<noteq> k \<longrightarrow> formData (handleChange k v st) k' = formData st k')
   \<and> status (handleChange k v st) = status st
   \<and> feedbackMessage (handleChange k v st) = feedbackMessage st"
  by (simp add: handleChange_def)

text \<open>Editing the email field of Ada's draft.\<close>

theorem change_sets_one_field_witness:
  "formData (handleChange (js ''email'') (js ''ada@example.org'') ada_state) (js ''email'')
     = Some (js ''ada@example.org'')
   \<and> formData (handleChange (js ''email'') (js ''ada@example.org'') ada_state) (js ''name'')
     = Some (js ''Ada'')
   \<and> formData (handleChange (js ''email'') (js ''ada@example.org'') ada_state) (js ''message'')
     = Some (js ''Hello'')
   \<and> status (handleChange (js ''email'') (js ''ada@example.org'') ada_state) = Idle
   \<and> feedbackMessage (handleChange (js ''email'') (js ''ada@example.org'') ada_state) = None"
proof -
  have n: "js ''name'' \<noteq> js ''email''" and m: "js ''message'' \<noteq> js ''email''"
    by (simp_all add: js_def)
  have s: "formData ada_state (js ''name'') = Some (js ''Ada'')"
    "formData ada_state (js ''message'') = Some (js ''Hello'')"
    "status ada_state = Idle" "feedbackMessage ada_state = None"
    by (simp_all add: ada_state_def ada_draft_def initial_contact_def js_def)
  show ?thesis
    using change_sets_one_field [of "js ''email''" "js ''ada@example.org''" ada_state] n m s
    by simp
qed


text \<open>
  The number of outstanding requests follows the status through every event of the
  form, and every event but a settlement leaves the difference between the requests
  made and the requests outstanding as it was.
\<close>

lemma settle_not_loading: "status (handleSubmit_settle outcome st) \<noteq> Loading"
  by (simp add: handleSubmit_settle_def split: option.split)

lemma form_step_in_step: "in_step f \<Longrightarrow> in_step (form_step email_ok f ev)"
proof (cases ev)
  case SubmitClick
  assume "in_step f"
  with SubmitClick show ?thesis
    by (simp add: in_step_def submit_disabled_def handleSubmit_begin_def)
next
  case (Change k v)
  assume "in_step f"
  with Change show ?thesis
    by (simp add: in_step_def handleChange_def)
next
  case (Settle outcome)
  assume "in_step f"
  with Settle show ?thesis
    by (simp add: in_step_def settle_not_loading split: if_splits)
qed

lemma form_run_in_step: "in_step f \<Longrightarrow> in_step (form_run email_ok f evs)"
  unfolding form_run_def
  by (induction evs arbitrary: f) (simp_all add: form_step_in_step)

lemma initial_form_in_step: "in_step initial_form"
  by (simp add: in_step_def initial_form_def initial_contact_def)

lemma form_step_made:
  "length (fetch_log (form_step email_ok f ev)) + outstanding f
     \<le> length (fetch_log f) + outstanding (form_step email_ok f ev)
         + (if is_settle ev then 1 else 0)"
  by (cases ev) simp_all

lemma form_run_made:
  "length (fetch_log (form_run email_ok f evs)) + outstanding f
     \<le> length (fetch_log f) + outstanding (form_run email_ok f evs)
         + length (filter is_settle evs)"
proof (induction evs arbitrary: f)
  case Nil
  show ?case by (simp add: form_run_def)
next
  case (Cons ev evs)
  have run: "form_run email_ok f (ev # evs) = form_run email_ok (form_step email_ok f ev) evs"
    by (simp add: form_run_def)
  have rest: "length (fetch_log (form_run email_ok (form_step email_ok f ev) evs))
                + outstanding (form_step email_ok f ev)
              \<le> length (fetch_log (form_step email_ok f ev))
                + outstanding (form_run email_ok (form_step email_ok f ev) evs)
                + length (filter is_settle evs)"
    by (rule Cons.IH)
  have first: "length (fetch_log (form_step email_ok f ev)) + outstanding f
                 \<le> length (fetch_log f) + outstanding (form_step email_ok f ev)
                     + (if is_settle ev then 1 else 0)"
    by (rule form_step_made)
  have count: "length (filter is_settle (ev # evs))
                 = (if is_settle ev then 1 else 0) + length (filter is_settle evs)"
    by simp
  show ?case
    unfolding run count using rest first by linarith
qed

text \<open>
  Claim C3. After any sequence of submit activations, field edits and settled requests
  on a freshly mounted form, at most one request is outstanding: exactly one while the
  status is loading (the specification's sending), none otherwise. And the requests
  made so far are at most one more than the settlements so far, so a second request is
  made only after the first has settled, however often the submit control is
  activated in between. This holds whatever the browser's check of the email
  address accepts. What holds the second request back is the \<^verbatim>\<open>disabled\<close> attribute
  of the button; \<^verbatim>\<open>handleSubmit\<close> itself tests no status.
\<close>

theorem single_outstanding_request:
  "outstanding (form_run email_ok initial_form evs) \<le> 1
   \<and> (status (ui (form_run email_ok initial_form evs)) = Loading
        \<longleftrightarrow> outstanding (form_run email_ok initial_form evs) = 1)
   \<and> length (fetch_log (form_run email_ok initial_form evs))
        \<le> Suc (length (filter is_settle evs))"
proof -
  have inv: "in_step (form_run email_ok initial_form evs)"
    by (rule form_run_in_step [OF initial_form_in_step])
  have "length (fetch_log (form_run email_ok initial_form evs)) + outstanding initial_form
          \<le> length (fetch_log initial_form) + outstanding (form_run email_ok initial_form evs)
              + length (filter is_settle evs)"
    by (rule form_run_made)
  then have made: "length (fetch_log (form_run email_ok initial_form evs))
          \<le> outstanding (form_run email_ok initial_form evs) + length (filter is_settle evs)"
    by (simp add: initial_form_def)
  from inv have one: "outstanding (form_run email_ok initial_form evs) \<le> 1"
    and iff: "status (ui (form_run email_ok initial_form evs)) = Loading
                \<longleftrightarrow> outstanding (form_run email_ok initial_form evs) = 1"
    by (simp_all add: in_step_def split: if_splits)
  from made one have "length (fetch_log (form_run email_ok initial_form evs))
          \<le> Suc (length (filter is_settle evs))"
    by linarith
  with one iff show ?thesis by blast
qed

text \<open>
  Ada's draft typed in full and the submit control activated twice in a row: the form
  is loading after the first activation, and after the second still one request is
  outstanding and one was made, with no settlement in between. With only the name
  typed, the activation makes no request and the form stays idle.
\<close>

theorem single_outstanding_request_witness:
  "status (ui (form_run contains_at initial_form fill_and_click)) = Loading
   \<and> status (ui (form_run contains_at initial_form double_click)) = Loading
   \<and> outstanding (form_run contains_at initial_form double_click) = 1
   \<and> length (fetch_log (form_run contains_at initial_form double_click)) = 1
   \<and> length (filter is_settle double_click) = 0
   \<and> status (ui (form_run contains_at initial_form incomplete_click)) = Idle
   \<and> fetch_log (form_run contains_at initial_form incomplete_click) = []"
proof -
  have keys: "js ''name'' \<noteq> js ''email''" "js ''name'' \<noteq> js ''message''"
    "js ''email'' \<noteq> js ''message''" "js ''email'' \<noteq> js ''name''"
    "js ''message'' \<noteq> js ''name''" "js ''message'' \<noteq> js ''email''"
    by (simp_all add: js_def)
  have ada: "js ''Ada'' \<noteq> []" "js ''Hello'' \<noteq> []" "js ''ada@example.com'' \<noteq> []"
    "contains_at (js ''ada@example.com'')"
    by (simp_all add: js_def contains_at_def)
  have l: "status (ui (form_run contains_at initial_form fill_and_click)) = Loading"
    and c: "length (fetch_log (form_run contains_at initial_form fill_and_click)) = 1"
    and o: "outstanding (form_run contains_at initial_form fill_and_click) = 1"
    by (simp_all add: fill_and_click_def form_run_def initial_form_def initial_contact_def
        submit_disabled_def form_valid_def field_filled_def handleChange_def
        handleSubmit_begin_def empty_form_def keys ada)
  have second: "form_run contains_at initial_form double_click
      = form_run contains_at initial_form fill_and_click"
    using l by (simp add: double_click_def form_run_def submit_disabled_def)
  have none: "length (filter is_settle double_click) = 0"
    by (simp add: double_click_def fill_and_click_def)
  have incomplete: "status (ui (form_run contains_at initial_form incomplete_click)) = Idle"
    "fetch_log (form_run contains_at initial_form incomplete_click) = []"
    by (simp_all add: incomplete_click_def form_run_def initial_form_def initial_contact_def
        submit_disabled_def form_valid_def field_filled_def handleChange_def empty_form_def keys)
  show ?thesis
    using l c o second none incomplete
      single_outstanding_request [where email_ok = contains_at and evs = double_click]
    by simp
qed


section \<open>The active section and navigation\<close>

lemma report_all_snoc: "report_all p (ids @ [i]) = setActiveSection i (report_all p ids)"
  by (simp add: report_all_def)

lemma observe_all_snoc:
  "observe_all p (evs @ [(i, es)]) = observer_callback i es (observe_all p evs)"
  by (simp add: observe_all_def)

text \<open>
  Claim C2. After any sequence of reports to the coordinator, the active section is the
  identifier of the last report, whatever the identifier is and whatever came before.
  The same holds one level up, for the observer callbacks of the sections: after any
  sequence of callbacks whose last one carries an intersecting first entry, the
  active section is the identifier of the section of that callback.
\<close>

theorem last_report_wins:
  "activeSection (report_all p (ids @ [i])) = i
   \<and> activeSection (observe_all p (evs @ [(i, True # es)])) = i"
  by (simp add: report_all_snoc observe_all_snoc observer_callback_def setActiveSection_def)

text \<open>
  Three reports, the last with an identifier of no section; and three callbacks, the
  second of which reports nothing.
\<close>

theorem last_report_wins_witness:
  "activeSection (report_all drawer_open [js ''skills'', js ''contact'', js ''nowhere'']) = js ''nowhere''
   \<and> activeSection (observe_all drawer_open
        [(js ''skills'', [True]), (js ''projects'', [False]), (js ''home'', [True, False])]) = js ''home''"
  using last_report_wins [where p = drawer_open and ids = "[js ''skills'', js ''contact'']"
      and i = "js ''nowhere''"]
    last_report_wins [where p = drawer_open and i = "js ''home''" and es = "[False]"
      and evs = "[(js ''skills'', [True]), (js ''projects'', [False])]"]
  by simp

text \<open>
  Claim C7. When the document has an element for the identifier \<open>s\<close>, activating the
  navigation entry for \<open>s\<close> makes three calls in this order: scroll the element into
  view, set the active section to \<open>s\<close>, close the drawer. Afterwards the active section
  is \<open>s\<close>. Nothing of the element is read, so its visible ratio plays no part.
\<close>

theorem navigate_present:
  assumes "getElementById s = Some element"
  shows "scrollToSection_calls getElementById s
           = [ScrollIntoView element, SetActiveSection s, SetIsOpen False]
       \<and> scrollToSection getElementById s p
           = p\<lparr>scrolled := scrolled p @ [element], activeSection := s, isOpen := False\<rparr>
       \<and> activeSection (scrollToSection getElementById s p) = s"
  using assms
  by (simp add: scrollToSection_def scrollToSection_calls_def setActiveSection_def setIsOpen_def)

text \<open>Navigating to the contact section while none of it is visible and the drawer is open.\<close>

theorem navigate_present_witness:
  "demo_document (js ''contact'') = Some (Element (js ''contact'') 0)
   \<and> scrollToSection_calls demo_document (js ''contact'')
        = [ScrollIntoView (Element (js ''contact'') 0), SetActiveSection (js ''contact''), SetIsOpen False]
   \<and> scrollToSection demo_document (js ''contact'') drawer_open
        = \<lparr>activeSection = js ''contact'', isOpen = False, scrolled = [Element (js ''contact'') 0]\<rparr>
   \<and> activeSection (scrollToSection demo_document (js ''contact'') drawer_open) = js ''contact''"
proof -
  have a: "demo_document (js ''contact'') = Some (Element (js ''contact'') 0)"
    by (simp add: demo_document_def js_def)
  show ?thesis
    using a navigate_present [where getElementById = demo_document and s = "js ''contact''"
        and p = drawer_open, OF a]
    by (simp add: drawer_open_def initial_page_def)
qed

text \<open>
  Claim C8. When the document has no element for the identifier, navigating to it
  makes no call and leaves the page as it was: nothing is scrolled, the active section
  and the drawer keep their values. The function has no failing branch.
\<close>

theorem navigate_absent:
  assumes "getElementById s = None"
  shows "scrollToSection_calls getElementById s = []
       \<and> scrollToSection getElementById s p = p"
  using assms by (simp add: scrollToSection_def scrollToSection_calls_def)

text \<open>Navigating to the skills section, which the document does not have.\<close>

theorem navigate_absent_witness:
  "demo_document (js ''skills'') = None
   \<and> scrollToSection_calls demo_document (js ''skills'') = []
   \<and> scrollToSection demo_document (js ''skills'') drawer_open = drawer_open"
proof -
  have a: "demo_document (js ''skills'') = None"
    by (simp add: demo_document_def js_def)
  show ?thesis
    using a navigate_absent [where getElementById = demo_document and s = "js ''skills''"
        and p = drawer_open, OF a]
    by simp
qed


section \<open>The relay endpoint\<close>

lemma trimmed_field_typed:
  assumes "string_or_absent (map_of props k)"
  shows "\<exists>x. trimmed_field (JObject props) k = Inr x
             \<and> (falsy x \<longleftrightarrow> absent_or_blank (map_of props k))"
proof (cases "map_of props k")
  case None
  then show ?thesis by (simp add: trimmed_field_def falsy_def)
next
  case (Some v)
  with assms show ?thesis
    by (cases v) (simp_all add: trimmed_field_def falsy_def)
qed

lemma site_env_configured: "\<not> falsy (FROM_EMAIL site_env)" "\<not> falsy (TO_EMAIL site_env)"
  by (simp_all add: falsy_def FROM_EMAIL_def TO_EMAIL_def site_env_def js_def)

lemma key_facts:
  "js ''name'' \<noteq> js ''email''" "js ''name'' \<noteq> js ''message''" "js ''email'' \<noteq> js ''message''"
  "js ''email'' \<noteq> js ''name''" "js ''message'' \<noteq> js ''name''" "js ''message'' \<noteq> js ''email''"
  by (simp_all add: js_def)

text \<open>
  Claim C6, as the code has it. On an endpoint whose sender and recipient addresses are
  set, a request whose JSON body is an object with each of \<^verbatim>\<open>name\<close>, \<^verbatim>\<open>email\<close> and
  \<^verbatim>\<open>message\<close> absent or a string, and at least one of them absent or blank after
  trimming, is answered with status 400 and the body
  \<^verbatim>\<open>{error:"Please provide name, email, and message."}\<close>, and no email is handed to the
  mail service.
\<close>

theorem relay_rejects_blank:
  assumes "\<not> falsy (FROM_EMAIL e)" and "\<not> falsy (TO_EMAIL e)"
    and "\<forall>k \<in> {js ''name'', js ''email'', js ''message''}. string_or_absent (map_of props k)"
    and "\<exists>k \<in> {js ''name'', js ''email'', js ''message''}. absent_or_blank (map_of props k)"
  shows "POST e send (Some (JObject props))
           = (\<lparr>http_status = 400,
               http_body = ErrorBody (js ''Please provide name, email, and message.'')\<rparr>, [])"
proof -
  obtain n where n: "trimmed_field (JObject props) (js ''name'') = Inr n"
      "falsy n \<longleftrightarrow> absent_or_blank (map_of props (js ''name''))"
    using assms(3) trimmed_field_typed [of props "js ''name''"] by auto
  obtain a where a: "trimmed_field (JObject props) (js ''email'') = Inr a"
      "falsy a \<longleftrightarrow> absent_or_blank (map_of props (js ''email''))"
    using assms(3) trimmed_field_typed [of props "js ''email''"] by auto
  obtain m where m: "trimmed_field (JObject props) (js ''message'') = Inr m"
      "falsy m \<longleftrightarrow> absent_or_blank (map_of props (js ''message''))"
    using assms(3) trimmed_field_typed [of props "js ''message''"] by auto
  have "falsy n \<or> falsy a \<or> falsy m"
    using assms(4) n(2) a(2) m(2) by auto
  then have "POST_try (the (FROM_EMAIL e)) (the (TO_EMAIL e)) send (Some (JObject props))
               = (Inr bad_request, [])"
    using n(1) a(1) m(1) by (simp add: POST_try_def)
  then show ?thesis
    using assms(1,2) by (simp add: POST_def bad_request_def)
qed

text \<open>A configured endpoint and a body whose message is only white space.\<close>

theorem relay_rejects_blank_witness:
  "\<not> falsy (FROM_EMAIL site_env) \<and> \<not> falsy (TO_EMAIL site_env)
   \<and> string_or_absent (map_of blank_message (js ''name''))
   \<and> string_or_absent (map_of blank_message (js ''email''))
   \<and> string_or_absent (map_of blank_message (js ''message''))
   \<and> absent_or_blank (map_of blank_message (js ''message''))
   \<and> POST site_env always_resolves (Some (JObject blank_message))
       = (\<lparr>http_status = 400,
           http_body = ErrorBody (js ''Please provide name, email, and message.'')\<rparr>, [])"
proof -
  have t: "string_or_absent (map_of blank_message (js ''name''))"
      "string_or_absent (map_of blank_message (js ''email''))"
      "string_or_absent (map_of blank_message (js ''message''))"
    by (simp_all add: blank_message_def key_facts)
  have b: "absent_or_blank (map_of blank_message (js ''message''))"
    by (simp add: blank_message_def key_facts trim_def is_whitespace_def)
  have t': "\<forall>k \<in> {js ''name'', js ''email'', js ''message''}.
              string_or_absent (map_of blank_message k)"
    using t by simp
  have b': "\<exists>k \<in> {js ''name'', js ''email'', js ''message''}.
              absent_or_blank (map_of blank_message k)"
    using b by simp
  show ?thesis
    using site_env_configured t b
      relay_rejects_blank [OF site_env_configured t' b', of always_resolves]
    by simp
qed

text \<open>
  Claim C6 as the specification words it holds for every request. On an endpoint with
  no sender address the same body is answered with status 500 by the configuration
  check, before the body is read.
\<close>

theorem unconfigured_relay_counterexample:
  "POST bare_env always_resolves (Some (JObject blank_message))
     = (\<lparr>http_status = 500,
         http_body = ErrorBody (js ''Email settings are incomplete on the server.'')\<rparr>, [])
   \<and> http_status (fst (POST bare_env always_resolves (Some (JObject blank_message)))) \<noteq> 400"
  by (simp add: POST_def falsy_def FROM_EMAIL_def TO_EMAIL_def bare_env_def settings_incomplete_def)

text \<open>
  Outside the declared payload type the endpoint does not validate: a body whose
  \<^verbatim>\<open>name\<close> is a number, with \<^verbatim>\<open>email\<close> and \<^verbatim>\<open>message\<close> absent, makes \<^verbatim>\<open>trim\<close> throw,
  and the configured endpoint answers with the status 500 of its \<^verbatim>\<open>catch\<close> block.
\<close>

lemma numeric_name_server_error:
  "POST site_env always_resolves (Some (JObject numeric_name))
     = (\<lparr>http_status = 500,
         http_body = ErrorBody (js ''Unable to send message at this time.'')\<rparr>, [])"
  using site_env_configured
  by (simp add: POST_def POST_try_def trimmed_field_def numeric_name_def unable_to_send_def)

text \<open>
  Claim C9, as the code has it. A request whose body is not JSON is answered with
  status 500 and no email is handed to the mail service. The body of the answer is
  \<^verbatim>\<open>{error:"Unable to send message at this time."}\<close> when the sender and recipient
  addresses are set, and \<^verbatim>\<open>{error:"Email settings are incomplete on the server."}\<close>
  when one of them is not.
\<close>

theorem unparseable_body:
  "POST e send None
     = (\<lparr>http_status = 500,
         http_body = ErrorBody
           (if falsy (FROM_EMAIL e) \<or> falsy (TO_EMAIL e)
            then js ''Email settings are incomplete on the server.''
            else js ''Unable to send message at this time.'')\<rparr>, [])"
  by (simp add: POST_def POST_try_def settings_incomplete_def unable_to_send_def)

text \<open>A body that is not JSON, sent to a configured endpoint.\<close>

theorem unparseable_body_witness:
  "POST site_env always_resolves None
     = (\<lparr>http_status = 500,
         http_body = ErrorBody (js ''Unable to send message at this time.'')\<rparr>, [])"
  using unparseable_body [of site_env always_resolves] site_env_configured
  by simp

text \<open>
  Claim C9 as the specification words it gives the generic body for every request. On
  an endpoint with no sender address the answer to a body that is not JSON carries
  the message of the configuration check.
\<close>

theorem unparseable_unconfigured_counterexample:
  "POST bare_env always_resolves None
     = (\<lparr>http_status = 500,
         http_body = ErrorBody (js ''Email settings are incomplete on the server.'')\<rparr>, [])
   \<and> http_body (fst (POST bare_env always_resolves None))
       \<noteq> ErrorBody (js ''Unable to send message at this time.'')"
  by (simp add: POST_def falsy_def FROM_EMAIL_def TO_EMAIL_def bare_env_def settings_incomplete_def
      js_def)

end
